theory Spec2Isabelle
  imports Complex_Main "HOL-Library.List_Lexorder" "HOL-Library.Char_ord"
begin

section \<open>The sacc2 data set and its covariance: a shallow embedding\<close>

text \<open>
  The development follows \<^verbatim>\<open>src/sacc2/covariance.py\<close> and \<^verbatim>\<open>src/sacc2/sacc.py\<close>.
  Every method is a HOL function of the same name; a method that mutates \<^verbatim>\<open>self\<close>
  returns the exception it raised (if any) together with the object as the call left it,
  so that an exception raised after a first assignment is visible in the model.

  Two defects of \<^verbatim>\<open>covariance.py\<close> concern the module as a whole and not one method:
  the class statement of \<^verbatim>\<open>DiagonalCovariance\<close> (line 143) lacks its colon, and the module
  uses \<^verbatim>\<open>np\<close> without importing numpy. The embedding reads the method bodies as they
  are written, with \<^verbatim>\<open>np\<close> meaning numpy as in \<^verbatim>\<open>sacc.py\<close>; names that a method body
  uses and nothing binds (\<^verbatim>\<open>block\<close>, \<^verbatim>\<open>self.covmat\<close> of a block covariance, ...) raise
  as they do in Python. Floating point values are modelled as reals: the methods only
  select and copy entries.
\<close>

subsection \<open>Exceptions\<close>

datatype py_error =
    ValueError string
  | TypeError
  | NameError
  | AttributeError
  | IndexError
  | KeyError

subsection \<open>numpy arrays and indexing\<close>

text \<open>
  A two-dimensional array is the list of its rows. A one-dimensional integer selector is
  either a Python list or an \<^verbatim>\<open>ndarray\<close> (only the latter has a \<^verbatim>\<open>dtype\<close>); a boolean
  selector is a boolean \<^verbatim>\<open>ndarray\<close>.
\<close>

type_synonym matrix = "real list list"

datatype index_seq = PyList "int list" | NdArray "int list"

datatype selector = Indices index_seq | BoolArray "bool list"

fun values_of :: "index_seq \<Rightarrow> int list" where
  "values_of (PyList xs) = xs"
| "values_of (NdArray xs) = xs"

definition ncols :: "matrix \<Rightarrow> nat" where
  "ncols C = (case C of [] \<Rightarrow> 0 | r # _ \<Rightarrow> length r)"

text \<open>An integer index on an axis of length \<open>n\<close>: negative indices count from the end,
  anything outside \<open>[-n, n)\<close> raises \<^verbatim>\<open>IndexError\<close> (Python lists and numpy agree).\<close>

definition norm_index :: "nat \<Rightarrow> int \<Rightarrow> py_error + nat" where
  "norm_index n i =
     (if 0 \<le> i \<and> i < int n then Inr (nat i)
      else if - int n \<le> i \<and> i < 0 then Inr (nat (i + int n))
      else Inl IndexError)"

fun norm_indices :: "nat \<Rightarrow> int list \<Rightarrow> py_error + nat list" where
  "norm_indices n [] = Inr []"
| "norm_indices n (i # rest) =
     (case norm_index n i of
        Inl e \<Rightarrow> Inl e
      | Inr j \<Rightarrow> (case norm_indices n rest of
                    Inl e \<Rightarrow> Inl e
                  | Inr js \<Rightarrow> Inr (j # js)))"

text \<open>The positions a selector picks on an axis of length \<open>n\<close>. A boolean array must have
  exactly the length of the axis.\<close>

fun positions :: "nat \<Rightarrow> selector \<Rightarrow> py_error + nat list" where
  "positions n (Indices ix) = norm_indices n (values_of ix)"
| "positions n (BoolArray bs) =
     (if length bs = n then Inr (filter (\<lambda>i. bs ! i) [0..<n]) else Inl IndexError)"

text \<open>\<^verbatim>\<open>a[sel]\<close>: selection along the first axis.\<close>

definition nd_getitem :: "'a list \<Rightarrow> selector \<Rightarrow> py_error + 'a list" where
  "nd_getitem xs sel =
     (case positions (length xs) sel of
        Inl e \<Rightarrow> Inl e
      | Inr ps \<Rightarrow> Inr (map (\<lambda>p. xs ! p) ps))"

text \<open>\<^verbatim>\<open>R[:, sel]\<close> for an array \<open>R\<close> with \<open>n\<close> columns.\<close>

definition nd_getitem_cols :: "nat \<Rightarrow> matrix \<Rightarrow> selector \<Rightarrow> py_error + matrix" where
  "nd_getitem_cols n R sel =
     (case positions n sel of
        Inl e \<Rightarrow> Inl e
      | Inr ps \<Rightarrow> Inr (map (\<lambda>row. map (\<lambda>p. row ! p) ps) R))"

text \<open>\<^verbatim>\<open>C[sel][:, sel]\<close>, the double indexing both \<^verbatim>\<open>masked\<close> and \<^verbatim>\<open>get_block\<close> use.\<close>

definition nd_getitem2 :: "matrix \<Rightarrow> selector \<Rightarrow> py_error + matrix" where
  "nd_getitem2 C sel =
     (case nd_getitem C sel of
        Inl e \<Rightarrow> Inl e
      | Inr R \<Rightarrow> nd_getitem_cols (ncols C) R sel)"

text \<open>\<^verbatim>\<open>np.cumsum\<close>, and \<^verbatim>\<open>np.split(ary, indices)\<close>: the slices between consecutive
  division points \<open>0, indices, len(ary)\<close>.\<close>

fun cumsum_from :: "nat \<Rightarrow> nat list \<Rightarrow> nat list" where
  "cumsum_from acc [] = []"
| "cumsum_from acc (x # xs) = (acc + x) # cumsum_from (acc + x) xs"

definition cumsum :: "nat list \<Rightarrow> nat list" where
  "cumsum xs = cumsum_from 0 xs"

fun slices :: "'a list \<Rightarrow> nat list \<Rightarrow> 'a list list" where
  "slices ary (a # b # rest) = take (b - a) (drop a ary) # slices ary (b # rest)"
| "slices ary [a] = []"
| "slices ary [] = []"

definition np_split :: "'a list \<Rightarrow> nat list \<Rightarrow> 'a list list" where
  "np_split ary idx = slices ary (0 # idx @ [length ary])"

text \<open>\<^verbatim>\<open>(np.diff(mask) > 0).all()\<close>\<close>

fun strictly_increasing :: "int list \<Rightarrow> bool" where
  "strictly_increasing (a # b # rest) = (a < b \<and> strictly_increasing (b # rest))"
| "strictly_increasing [a] = True"
| "strictly_increasing [] = True"

subsection \<open>The three covariance classes\<close>

datatype covariance =
    FullCovariance (covmat: matrix)
  | BlockDiagonalCovariance (blocks: "matrix list")
  | DiagonalCovariance (diag: "real list")

text \<open>\<^verbatim>\<open>block_sizes\<close> and \<^verbatim>\<open>total_size\<close> are set once by the constructor from the blocks.\<close>

definition block_sizes :: "matrix list \<Rightarrow> nat list" where
  "block_sizes bs = map length bs"

definition total_size :: "matrix list \<Rightarrow> nat" where
  "total_size bs = sum_list (block_sizes bs)"

text \<open>The size of a covariance: \<^verbatim>\<open>covmat.shape[0]\<close> (what \<^verbatim>\<open>to_fits\<close> writes as
  \<^verbatim>\<open>size\<close>), \<^verbatim>\<open>total_size\<close>, and \<^verbatim>\<open>self.size = len(diag)\<close>.\<close>

fun cov_size :: "covariance \<Rightarrow> nat" where
  "cov_size (FullCovariance C) = length C"
| "cov_size (BlockDiagonalCovariance bs) = total_size bs"
| "cov_size (DiagonalCovariance d) = length d"

subsubsection \<open>FullCovariance.masked, DiagonalCovariance.masked\<close>

definition FullCovariance_masked :: "matrix \<Rightarrow> selector \<Rightarrow> py_error + covariance" where
  "FullCovariance_masked C msk =
     (case nd_getitem2 C msk of
        Inl e \<Rightarrow> Inl e
      | Inr C' \<Rightarrow> Inr (FullCovariance C'))"

definition DiagonalCovariance_masked :: "real list \<Rightarrow> selector \<Rightarrow> py_error + covariance" where
  "DiagonalCovariance_masked d msk =
     (case nd_getitem d msk of
        Inl e \<Rightarrow> Inl e
      | Inr D \<Rightarrow> Inr (DiagonalCovariance D))"

subsubsection \<open>BlockDiagonalCovariance.masked\<close>

text \<open>
  The boolean branch evaluates \<^verbatim>\<open>self.blocks[m][:,m]\<close> for each sub-mask \<^verbatim>\<open>m\<close>:
  \<^verbatim>\<open>self.blocks\<close> is a Python list, and a list indexed by a boolean array raises
  \<^verbatim>\<open>TypeError\<close>.
\<close>

definition list_getitem_boolarray :: "'a list \<Rightarrow> bool list \<Rightarrow> py_error + 'a" where
  "list_getitem_boolarray xs m = Inl TypeError"

fun masked_block_list :: "matrix list \<Rightarrow> bool list list \<Rightarrow> py_error + matrix list" where
  "masked_block_list bs [] = Inr []"
| "masked_block_list bs (m # ms) =
     (case list_getitem_boolarray bs m of
        Inl e \<Rightarrow> Inl e
      | Inr b \<Rightarrow> (case nd_getitem_cols (ncols b) b (BoolArray m) of
                   Inl e \<Rightarrow> Inl e
                 | Inr b' \<Rightarrow> (case masked_block_list bs ms of
                                Inl e \<Rightarrow> Inl e
                              | Inr rest \<Rightarrow> Inr (b' # rest))))"

text \<open>
  The increasing-index branch (and \<^verbatim>\<open>get_block\<close>) loops over the blocks with loop variable
  \<^verbatim>\<open>b\<close> but indexes the name \<^verbatim>\<open>block\<close>, which nothing in the module binds.
\<close>

definition block :: "py_error + matrix" where
  "block = Inl NameError"

text \<open>\<^verbatim>\<open>x[(x>=s)&(x<e)]\<close>: comparing a Python list with an integer raises
  \<^verbatim>\<open>TypeError\<close>; on an array the comparison is element-wise.\<close>

fun in_range :: "index_seq \<Rightarrow> int \<Rightarrow> int \<Rightarrow> py_error + int list" where
  "in_range (PyList xs) s e = Inl TypeError"
| "in_range (NdArray xs) s e = Inr (filter (\<lambda>i. s \<le> i \<and> i < e) xs)"

fun sub_blocks_loop :: "index_seq \<Rightarrow> int \<Rightarrow> matrix list \<Rightarrow> py_error + matrix list" where
  "sub_blocks_loop msk s [] = Inr []"
| "sub_blocks_loop msk s (b # bs) =
     (let e = s + int (length b)
      in case in_range msk s e of
           Inl err \<Rightarrow> Inl err
         | Inr m \<Rightarrow>
             (case block of
                Inl err \<Rightarrow> Inl err
              | Inr blk \<Rightarrow>
                  (case nd_getitem2 blk (Indices (NdArray m)) of
                     Inl err \<Rightarrow> Inl err
                   | Inr sb \<Rightarrow>
                       (case sub_blocks_loop msk (s + int (length b)) bs of
                          Inl err \<Rightarrow> Inl err
                        | Inr rest \<Rightarrow> Inr (sb # rest)))))"

text \<open>
  \<^verbatim>\<open>scipy.linalg.block_diag(xs)\<close> called with the list itself as its only argument (the
  source does not unpack it with \<^verbatim>\<open>*\<close>). The argument goes through \<^verbatim>\<open>np.atleast_2d\<close>:
  the empty list becomes an array of shape \<open>(1, 0)\<close>, which is returned; a list of one or
  more two-dimensional blocks is an array of three dimensions when the blocks have one
  shape, which \<^verbatim>\<open>block_diag\<close> rejects, and is no array at all when they do not (numpy 2;
  releases before 1.24 built an array of objects there). Both are a \<^verbatim>\<open>ValueError\<close>. The
  string of a \<^verbatim>\<open>ValueError\<close> that a library raises names the cause and is not the
  library's wording.
\<close>

definition block_diag_of_list :: "matrix list \<Rightarrow> py_error + matrix" where
  "block_diag_of_list xs =
     (if xs = [] then Inr [[]]
      else Inl (ValueError ''block_diag: argument is not an array of at most 2 dimensions''))"

fun BlockDiagonalCovariance_masked :: "matrix list \<Rightarrow> selector \<Rightarrow> py_error + covariance" where
  "BlockDiagonalCovariance_masked bs (Indices (PyList xs)) = Inl AttributeError"
| "BlockDiagonalCovariance_masked bs (BoolArray msk) =
     (let breaks = butlast (cumsum (block_sizes bs));
          block_masks = np_split msk breaks
      in case masked_block_list bs block_masks of
           Inl e \<Rightarrow> Inl e
         | Inr bs' \<Rightarrow> Inr (BlockDiagonalCovariance bs'))"
| "BlockDiagonalCovariance_masked bs (Indices (NdArray msk)) =
     (if strictly_increasing msk then
        (case sub_blocks_loop (NdArray msk) 0 bs of
           Inl e \<Rightarrow> Inl e
         | Inr sub_blocks \<Rightarrow> Inr (BlockDiagonalCovariance sub_blocks))
      else
        (case block_diag_of_list bs of
           Inl e \<Rightarrow> Inl e
         | Inr C \<Rightarrow> (case nd_getitem2 C (Indices (NdArray msk)) of
                      Inl e \<Rightarrow> Inl e
                    | Inr C' \<Rightarrow> Inr (FullCovariance C'))))"

text \<open>Method dispatch on the class of the covariance object.\<close>

fun masked :: "covariance \<Rightarrow> selector \<Rightarrow> py_error + covariance" where
  "masked (FullCovariance C) msk = FullCovariance_masked C msk"
| "masked (BlockDiagonalCovariance bs) msk = BlockDiagonalCovariance_masked bs msk"
| "masked (DiagonalCovariance d) msk = DiagonalCovariance_masked d msk"

subsubsection \<open>get\_block\<close>

definition FullCovariance_get_block :: "matrix \<Rightarrow> index_seq \<Rightarrow> py_error + matrix" where
  "FullCovariance_get_block C indices = nd_getitem2 C (Indices indices)"

text \<open>The array \<^verbatim>\<open>C = np.zeros((n,n))\<close> of the source is never used; the result is
  \<^verbatim>\<open>scipy.linalg.block_diag(sub_blocks)\<close>, again with the list as single argument.\<close>

definition BlockDiagonalCovariance_get_block ::
    "matrix list \<Rightarrow> index_seq \<Rightarrow> py_error + matrix" where
  "BlockDiagonalCovariance_get_block bs indices =
     (case sub_blocks_loop indices 0 bs of
        Inl e \<Rightarrow> Inl e
      | Inr sub_blocks \<Rightarrow> block_diag_of_list sub_blocks)"

text \<open>\<^verbatim>\<open>np.diagonal\<close> (the source does not call \<^verbatim>\<open>np.diag\<close>) extracts a diagonal and
  needs at least two dimensions; \<^verbatim>\<open>self.diag[indices]\<close> has one.\<close>

definition np_diagonal_1d :: "real list \<Rightarrow> py_error + matrix" where
  "np_diagonal_1d v = Inl (ValueError ''diagonal: array needs at least two dimensions'')"

definition DiagonalCovariance_get_block :: "real list \<Rightarrow> index_seq \<Rightarrow> py_error + matrix" where
  "DiagonalCovariance_get_block d indices =
     (case nd_getitem d (Indices indices) of
        Inl e \<Rightarrow> Inl e
      | Inr v \<Rightarrow> np_diagonal_1d v)"

fun get_block :: "covariance \<Rightarrow> index_seq \<Rightarrow> py_error + matrix" where
  "get_block (FullCovariance C) indices = FullCovariance_get_block C indices"
| "get_block (BlockDiagonalCovariance bs) indices = BlockDiagonalCovariance_get_block bs indices"
| "get_block (DiagonalCovariance d) indices = DiagonalCovariance_get_block d indices"

subsubsection \<open>to\_fits and from\_fits\<close>

text \<open>An image HDU: its data array, its name and its header cards in the order they are
  written. (The table HDU of the diagonal class is built by astropy's \<^verbatim>\<open>Table\<close> and is
  not part of this model.)\<close>

datatype header_value = HStr string | HInt int

datatype image = Image1D "real list" | Image2D matrix

record hdu =
  hdu_data :: image
  hdu_name :: string
  header :: "(string \<times> header_value) list"

definition FullCovariance_to_fits :: "matrix \<Rightarrow> py_error + hdu" where
  "FullCovariance_to_fits C =
     Inr \<lparr>hdu_data = Image2D C, hdu_name = ''covariance'',
          header = [(''sacctype'', HStr ''cov''), (''saccclss'', HStr ''full''),
                    (''size'', HInt (int (length C)))]\<rparr>"

text \<open>\<^verbatim>\<open>cls(hdu.data)\<close>: the constructor applies \<^verbatim>\<open>np.atleast_2d\<close>.\<close>

definition FullCovariance_from_fits :: "hdu \<Rightarrow> py_error + covariance" where
  "FullCovariance_from_fits h =
     (case hdu_data h of
        Image2D C \<Rightarrow> Inr (FullCovariance C)
      | Image1D v \<Rightarrow> Inr (FullCovariance [v]))"

text \<open>A block covariance has the attributes \<^verbatim>\<open>blocks\<close>, \<^verbatim>\<open>block_sizes\<close> and
  \<^verbatim>\<open>total_size\<close>; its \<^verbatim>\<open>to_fits\<close> reads \<^verbatim>\<open>self.covmat\<close> and \<^verbatim>\<open>self.block\<close>.\<close>

definition BlockDiagonalCovariance_covmat :: "py_error + matrix" where
  "BlockDiagonalCovariance_covmat = Inl AttributeError"

definition BlockDiagonalCovariance_block :: "py_error + matrix list" where
  "BlockDiagonalCovariance_block = Inl AttributeError"

text \<open>The header cards \<^verbatim>\<open>size_0, size_1, ...\<close>\<close>

fun digits :: "nat \<Rightarrow> nat \<Rightarrow> string" where
  "digits 0 n = []"
| "digits (Suc fuel) n =
     (if n < 10 then [char_of (48 + n)]
      else digits fuel (n div 10) @ [char_of (48 + n mod 10)])"

definition size_key :: "nat \<Rightarrow> string" where
  "size_key i = ''size_'' @ digits (Suc i) i"

definition BlockDiagonalCovariance_to_fits :: "matrix list \<Rightarrow> py_error + hdu" where
  "BlockDiagonalCovariance_to_fits bs =
     (if bs = [] then Inl (ValueError ''concatenate: need at least one array'')
      else
        (let payload = Image1D (concat (map concat bs));
             h2 = [(''sacctype'', HStr ''cov''), (''saccclss'', HStr ''block'')]
         in case BlockDiagonalCovariance_covmat of
              Inl e \<Rightarrow> Inl e
            | Inr C \<Rightarrow>
                (case BlockDiagonalCovariance_block of
                   Inl e \<Rightarrow> Inl e
                 | Inr blk \<Rightarrow>
                     Inr \<lparr>hdu_data = payload, hdu_name = ''covariance'',
                          header = h2 @ [(''size'', HInt (int (length C))),
                                         (''blocks'', HInt (int (length blk)))]
                                   @ map (\<lambda>(i, sz). (size_key i, HInt (int sz)))
                                         (enumerate 0 (block_sizes bs))\<rparr>)))"

text \<open>The dispatcher \<^verbatim>\<open>BaseCovariance.from_fits\<close>, which \<^verbatim>\<open>Sacc.load\<close> calls: a class
  method with parameter \<^verbatim>\<open>cls\<close> whose body reads the unbound names \<^verbatim>\<open>self\<close> and
  \<^verbatim>\<open>subcls\<close> after looking up the header card \<^verbatim>\<open>saccclss\<close>.\<close>

definition BaseCovariance_from_fits :: "hdu \<Rightarrow> py_error + covariance" where
  "BaseCovariance_from_fits h =
     (case map_of (header h) ''saccclss'' of
        None \<Rightarrow> Inl KeyError
      | Some subclass_name \<Rightarrow> Inl NameError)"

subsection \<open>Data points and the data set\<close>

text \<open>Tag values are Python scalars; a missing tag reads as \<^verbatim>\<open>None\<close>. The tracers of a
  data point are a Python sequence, a list or a tuple, of tracer names.\<close>

datatype pyval = PNone | PInt int | PFloat real | PStr string

datatype pyseq = PyListS "string list" | PyTuple "string list"

record data_point =
  data_type :: string
  tracers :: pyseq
  dp_value :: real
  tags :: "(string \<times> pyval) list"

record sacc =
  data :: "data_point list"
  known_tracers :: "string set"
  covariance :: "covariance option"
  metadata :: "(string \<times> pyval) list"

subsubsection \<open>Sacc.cut\<close>

text \<open>The argument of \<^verbatim>\<open>cut\<close> after \<^verbatim>\<open>mask = np.array(mask)\<close>: an array whose dtype is
  boolean, a signed integer type, or something else (floats, strings).\<close>

datatype cut_mask =
    BoolMask "bool list"
  | IntMask "int list"
  | FloatMask "real list"
  | StrMask "string list"

text \<open>\<^verbatim>\<open>for i in mask: m[i] = True\<close>\<close>

fun set_true :: "bool list \<Rightarrow> int list \<Rightarrow> py_error + bool list" where
  "set_true m [] = Inr m"
| "set_true m (i # rest) =
     (case norm_index (length m) i of
        Inl e \<Rightarrow> Inl e
      | Inr j \<Rightarrow> set_true (m[j := True]) rest)"

fun to_bool_mask :: "nat \<Rightarrow> cut_mask \<Rightarrow> py_error + bool list" where
  "to_bool_mask n (BoolMask m) = Inr m"
| "to_bool_mask n (IntMask idx) = set_true (replicate n False) idx"
| "to_bool_mask n (FloatMask xs) = Inl (ValueError ''Wrong mask type'')"
| "to_bool_mask n (StrMask xs) = Inl (ValueError ''Wrong mask type'')"

text \<open>\<^verbatim>\<open>[d for i,d in enumerate(self.data) if not mask[i]]\<close>\<close>

definition keep_unmasked :: "'a list \<Rightarrow> bool list \<Rightarrow> 'a list" where
  "keep_unmasked xs msk = map (\<lambda>i. xs ! i) (filter (\<lambda>i. \<not> msk ! i) [0..<length xs])"

definition cut :: "sacc \<Rightarrow> cut_mask \<Rightarrow> py_error option \<times> sacc" where
  "cut s mask0 =
     (case to_bool_mask (length (data s)) mask0 of
        Inl e \<Rightarrow> (Some e, s)
      | Inr msk \<Rightarrow>
          if length msk \<noteq> length (data s)
          then (Some (ValueError ''Mask passed in is wrong size''), s)
          else
            (let s1 = s\<lparr>data := keep_unmasked (data s) msk\<rparr>
             in case covariance s1 of
                  None \<Rightarrow> (None, s1)
                | Some c \<Rightarrow>
                    (case masked c (BoolArray (map Not msk)) of
                       Inl e \<Rightarrow> (Some e, s1)
                     | Inr c' \<Rightarrow> (None, s1\<lparr>covariance := Some c'\<rparr>))))"

subsubsection \<open>Sacc.reorder\<close>

text \<open>\<^verbatim>\<open>[self.data[i] for i in indices]\<close> raises before \<^verbatim>\<open>self.data\<close> is assigned.\<close>

definition reorder :: "sacc \<Rightarrow> index_seq \<Rightarrow> py_error option \<times> sacc" where
  "reorder s indices =
     (case nd_getitem (data s) (Indices indices) of
        Inl e \<Rightarrow> (Some e, s)
      | Inr ds \<Rightarrow>
          (let s1 = s\<lparr>data := ds\<rparr>
           in case covariance s1 of
                None \<Rightarrow> (None, s1)
              | Some c \<Rightarrow>
                  (case masked c (Indices indices) of
                     Inl e \<Rightarrow> (Some e, s1)
                   | Inr c' \<Rightarrow> (None, s1\<lparr>covariance := Some c'\<rparr>))))"

subsubsection \<open>DataPoint and Sacc.add\_data\_point\<close>

text \<open>\<^verbatim>\<open>DataPoint.__init__\<close> stores its arguments as they are (the warning for a data type
  outside \<^verbatim>\<open>allowed_types\<close> changes nothing).\<close>

definition DataPoint :: "string \<Rightarrow> pyseq \<Rightarrow> real \<Rightarrow> (string \<times> pyval) list \<Rightarrow> data_point" where
  "DataPoint dt trs v tgs = \<lparr>data_type = dt, tracers = trs, dp_value = v, tags = tgs\<rparr>"

text \<open>\<^verbatim>\<open>self.tags.get(tag)\<close>\<close>

definition get_tag :: "data_point \<Rightarrow> string \<Rightarrow> pyval" where
  "get_tag d tag = (case map_of (tags d) tag of None \<Rightarrow> PNone | Some v \<Rightarrow> v)"

text \<open>Python's \<^verbatim>\<open>tuple(...)\<close> of a sequence. Sequences of different types are never
  equal in Python (\<^verbatim>\<open>['a'] == ('a',)\<close> is false), as the two constructors are in HOL.\<close>

fun items_of :: "pyseq \<Rightarrow> string list" where
  "items_of (PyListS xs) = xs"
| "items_of (PyTuple xs) = xs"

definition tuple :: "pyseq \<Rightarrow> pyseq" where
  "tuple trs = PyTuple (items_of trs)"

definition unknown_tracer_message :: "string \<Rightarrow> string" where
  "unknown_tracer_message tracer =
     ''Tracer named '' @ [CHR 0x27] @ tracer @ [CHR 0x27]
     @ '' is not in the known list of tracers.''
     @ ''Either put it in before adding data points or set tracers_later=True''"

definition add_data_point ::
    "sacc \<Rightarrow> string \<Rightarrow> pyseq \<Rightarrow> real \<Rightarrow> bool \<Rightarrow> (string \<times> pyval) list \<Rightarrow> py_error option \<times> sacc" where
  "add_data_point s dt trs0 v tracers_later tgs =
     (if covariance s \<noteq> None
      then (Some (ValueError ''You cannot add a data point after setting the covariance''), s)
      else
        (let trs = tuple trs0
         in case find (\<lambda>tracer. tracer \<notin> known_tracers s \<and> \<not> tracers_later) (items_of trs) of
              Some tracer \<Rightarrow> (Some (ValueError (unknown_tracer_message tracer)), s)
            | None \<Rightarrow> (None, s\<lparr>data := data s @ [DataPoint dt trs v tgs]\<rparr>)))"

subsubsection \<open>Sacc.indices\<close>

text \<open>Python's \<^verbatim>\<open>==\<close>, \<^verbatim>\<open><\<close> and \<^verbatim>\<open>>\<close> on tag values. Numbers compare by value, strings
  with strings; an ordering comparison of anything else, \<^verbatim>\<open>None\<close> included, raises
  \<^verbatim>\<open>TypeError\<close>.\<close>

fun py_eq :: "pyval \<Rightarrow> pyval \<Rightarrow> bool" where
  "py_eq (PInt a) (PFloat b) = (real_of_int a = b)"
| "py_eq (PFloat a) (PInt b) = (a = real_of_int b)"
| "py_eq a b = (a = b)"

fun py_lt :: "pyval \<Rightarrow> pyval \<Rightarrow> py_error + bool" where
  "py_lt (PInt a) (PInt b) = Inr (a < b)"
| "py_lt (PInt a) (PFloat b) = Inr (real_of_int a < b)"
| "py_lt (PFloat a) (PInt b) = Inr (a < real_of_int b)"
| "py_lt (PFloat a) (PFloat b) = Inr (a < b)"
| "py_lt (PStr a) (PStr b) = Inr (a < b)"
| "py_lt a b = Inl TypeError"

fun py_gt :: "pyval \<Rightarrow> pyval \<Rightarrow> py_error + bool" where
  "py_gt (PInt a) (PInt b) = Inr (a > b)"
| "py_gt (PInt a) (PFloat b) = Inr (real_of_int a > b)"
| "py_gt (PFloat a) (PInt b) = Inr (a > real_of_int b)"
| "py_gt (PFloat a) (PFloat b) = Inr (a > b)"
| "py_gt (PStr a) (PStr b) = Inr (a > b)"
| "py_gt a b = Inl TypeError"

definition endswith :: "string \<Rightarrow> string \<Rightarrow> bool" where
  "endswith name suffix =
     (length suffix \<le> length name \<and> drop (length name - length suffix) name = suffix)"

text \<open>The loop over \<^verbatim>\<open>select.items()\<close> with its three branches; the result is \<^verbatim>\<open>ok\<close>.
  \<^verbatim>\<open>name[:-4]\<close> drops the four characters of the suffix.\<close>

fun select_ok :: "data_point \<Rightarrow> (string \<times> pyval) list \<Rightarrow> py_error + bool" where
  "select_ok d [] = Inr True"
| "select_ok d ((name, val) # rest) =
     (if endswith name ''__lt'' then
        (case py_lt (get_tag d (take (length name - 4) name)) val of
           Inl e \<Rightarrow> Inl e
         | Inr b \<Rightarrow> if \<not> b then Inr False else select_ok d rest)
      else if endswith name ''__gt'' then
        (case py_gt (get_tag d (take (length name - 4) name)) val of
           Inl e \<Rightarrow> Inl e
         | Inr b \<Rightarrow> if \<not> b then Inr False else select_ok d rest)
      else
        (if \<not> py_eq (get_tag d name) val then Inr False else select_ok d rest))"

fun indices_from ::
    "nat \<Rightarrow> data_point list \<Rightarrow> string option \<Rightarrow> pyseq option \<Rightarrow> (string \<times> pyval) list
     \<Rightarrow> py_error + nat list" where
  "indices_from i [] dt trs sel = Inr []"
| "indices_from i (d # ds) dt trs sel =
     (if \<not> (trs = None \<or> Some (tracers d) = trs) then indices_from (Suc i) ds dt trs sel
      else if \<not> (dt = None \<or> Some (data_type d) = dt) then indices_from (Suc i) ds dt trs sel
      else
        (case select_ok d sel of
           Inl e \<Rightarrow> Inl e
         | Inr ok \<Rightarrow>
             (case indices_from (Suc i) ds dt trs sel of
                Inl e \<Rightarrow> Inl e
              | Inr rest \<Rightarrow> Inr (if ok then i # rest else rest))))"

definition indices ::
    "sacc \<Rightarrow> string option \<Rightarrow> pyseq option \<Rightarrow> (string \<times> pyval) list \<Rightarrow> py_error + nat list" where
  "indices s dt trs0 sel = indices_from 0 (data s) dt (map_option tuple trs0) sel"

subsection \<open>Example data sets\<close>

definition three_points :: "data_point list" where
  "three_points =
     [DataPoint ''shear_ee'' (PyTuple [''A'', ''A'']) 10 [(''ell'', PFloat 30)],
      DataPoint ''shear_ee'' (PyTuple [''A'', ''B'']) 20 [(''ell'', PFloat 60)],
      DataPoint ''shear_ee'' (PyTuple [''B'', ''B'']) 30 []]"

definition example_cov :: matrix where
  "example_cov = [[11, 12, 13], [21, 22, 23], [31, 32, 33]]"

definition sacc_with :: "covariance \<Rightarrow> sacc" where
  "sacc_with c = \<lparr>data = three_points, known_tracers = {''A'', ''B''},
                  covariance = Some c, metadata = []\<rparr>"

definition full_sacc :: sacc where
  "full_sacc = sacc_with (FullCovariance example_cov)"

definition block_sacc :: sacc where
  "block_sacc = sacc_with (BlockDiagonalCovariance [[[11, 12], [21, 22]], [[33]]])"

definition empty_sacc :: sacc where
  "empty_sacc = \<lparr>data = [], known_tracers = {''A'', ''B''}, covariance = None, metadata = []\<rparr>"

section \<open>Properties\<close>

lemmas example_defs =
  full_sacc_def block_sacc_def sacc_with_def three_points_def example_cov_def DataPoint_def

subsection \<open>Alignment of records and covariance\<close>

text \<open>
  C1. After \<^verbatim>\<open>cut\<close> or \<^verbatim>\<open>reorder\<close> the number of records should equal the size of the
  covariance for all three classes. With a block-diagonal covariance it does not: on the
  three-point example with blocks of sizes 2 and 1, \<^verbatim>\<open>cut([True, False, False])\<close> assigns
  the two kept records to \<^verbatim>\<open>self.data\<close> and then raises \<^verbatim>\<open>TypeError\<close> inside
  \<^verbatim>\<open>masked\<close>, so the data set is left with 2 records and a covariance of size 3.
\<close>

theorem cut_block_breaks_alignment:
  "cut block_sacc (BoolMask [True, False, False])
     = (Some TypeError, block_sacc\<lparr>data := tl three_points\<rparr>)
   \<and> length (data (snd (cut block_sacc (BoolMask [True, False, False])))) = 2
   \<and> map_option cov_size (covariance (snd (cut block_sacc (BoolMask [True, False, False]))))
       = Some 3"
  by (simp add: example_defs cut_def keep_unmasked_def np_split_def cumsum_def block_sizes_def
      total_size_def list_getitem_boolarray_def upt_rec)

subsection \<open>Cutting the middle record\<close>

text \<open>
  C2 as stated fails: in \<^verbatim>\<open>cut\<close> a \<^verbatim>\<open>True\<close> marks a record to remove, so
  \<^verbatim>\<open>cut([False, True, False])\<close> on the three-point example does not leave one record
  with the covariance entry \<open>[1][1]\<close>.
\<close>

theorem cut_middle_mask_counterexample:
  "\<not> (length (data (snd (cut full_sacc (BoolMask [False, True, False])))) = 1
      \<and> covariance (snd (cut full_sacc (BoolMask [False, True, False])))
          = Some (FullCovariance [[example_cov ! 1 ! 1]]))"
  by (simp add: example_defs cut_def keep_unmasked_def upt_rec FullCovariance_masked_def
      nd_getitem2_def nd_getitem_def nd_getitem_cols_def ncols_def)

text \<open>
  C2, amended. On a data set of exactly three records with a full 3-by-3 covariance,
  \<^verbatim>\<open>cut([False, True, False])\<close> removes record 1: it leaves records 0 and 2 and the
  2-by-2 covariance of rows and columns 0 and 2. The mask \<^verbatim>\<open>[True, False, True]\<close> is the
  one that leaves record 1 alone, with the single covariance entry \<open>[1][1]\<close>.
\<close>

theorem cut_middle_mask:
  assumes "data s = [d0, d1, d2]"
    and "covariance s
           = Some (FullCovariance [[c00, c01, c02], [c10, c11, c12], [c20, c21, c22]])"
  shows "cut s (BoolMask [False, True, False])
           = (None, s\<lparr>data := [d0, d2],
                      covariance := Some (FullCovariance [[c00, c02], [c20, c22]])\<rparr>)
       \<and> cut s (BoolMask [True, False, True])
           = (None, s\<lparr>data := [d1], covariance := Some (FullCovariance [[c11]])\<rparr>)"
  using assms
  by (simp add: cut_def keep_unmasked_def upt_rec FullCovariance_masked_def nd_getitem2_def
      nd_getitem_def nd_getitem_cols_def ncols_def)

theorem cut_middle_mask_witness:
  "cut full_sacc (BoolMask [False, True, False])
     = (None, full_sacc\<lparr>data := [three_points ! 0, three_points ! 2],
                         covariance := Some (FullCovariance [[11, 13], [31, 33]])\<rparr>)
   \<and> cut full_sacc (BoolMask [True, False, True])
     = (None, full_sacc\<lparr>data := [three_points ! 1],
                         covariance := Some (FullCovariance [[22]])\<rparr>)"
  using cut_middle_mask [of full_sacc "three_points ! 0" "three_points ! 1" "three_points ! 2"
      11 12 13 21 22 23 31 32 33]
  by (simp add: example_defs)

subsection \<open>Masking a block-diagonal covariance\<close>

text \<open>
  C3. A selector that is not strictly increasing should give the full covariance of the
  expanded matrix. On the single block \<open>[[1, 2], [3, 4]]\<close> and the selector \<open>[1, 0]\<close> the
  expected result is the full covariance \<open>[[4, 3], [2, 1]]\<close>; the call raises instead:
  \<^verbatim>\<open>ValueError\<close> from \<^verbatim>\<open>block_diag\<close> for an array selector, \<^verbatim>\<open>AttributeError\<close> (no
  \<^verbatim>\<open>dtype\<close>) for a Python list.
\<close>

theorem masked_block_unordered_raises:
  "masked (BlockDiagonalCovariance [[[1, 2], [3, 4]]]) (Indices (NdArray [1, 0]))
     = Inl (ValueError ''block_diag: argument is not an array of at most 2 dimensions'')
   \<and> masked (BlockDiagonalCovariance [[[1, 2], [3, 4]]]) (Indices (PyList [1, 0]))
     = Inl AttributeError"
  by (simp add: block_diag_of_list_def)

lemma np_split_nonempty: "np_split ary idx \<noteq> []"
proof (cases idx)
  case Nil
  then show ?thesis by (simp add: np_split_def)
next
  case (Cons i rest)
  then show ?thesis by (simp add: np_split_def)
qed

lemma masked_block_list_raises: "ms \<noteq> [] \<Longrightarrow> masked_block_list bs ms = Inl TypeError"
  by (cases ms) (simp_all add: list_getitem_boolarray_def)

text \<open>
  C4. With a boolean mask, \<^verbatim>\<open>masked\<close> should split the mask at the block boundaries,
  restrict each block by its sub-mask and return a block-diagonal covariance without the
  emptied blocks. It returns nothing: whatever the blocks and the mask, the split yields
  at least one sub-mask \<^verbatim>\<open>m\<close>, and \<^verbatim>\<open>self.blocks[m]\<close> indexes the list of blocks, not a
  block, and raises \<^verbatim>\<open>TypeError\<close>. For the blocks \<open>[[1, 2], [3, 4]]\<close> and \<open>[[5]]\<close> and
  the mask \<open>[True, False, False]\<close> the claim expects the single block \<open>[[1]]\<close>.
\<close>

theorem masked_block_bool_raises:
  "masked (BlockDiagonalCovariance bs) (BoolArray m) = Inl TypeError
   \<and> masked (BlockDiagonalCovariance [[[1, 2], [3, 4]], [[5]]]) (BoolArray [True, False, False])
     \<noteq> Inr (BlockDiagonalCovariance [[[1]]])"
proof -
  have "masked (BlockDiagonalCovariance cs) (BoolArray k) = Inl TypeError" for cs k
    using masked_block_list_raises [OF np_split_nonempty]
    by (simp add: Let_def)
  then show ?thesis by simp
qed

text \<open>
  The splitting itself is as the spec describes it: for at least one block and a mask of
  length N, \<^verbatim>\<open>np.split(mask, np.cumsum(self.block_sizes)[:-1])\<close> yields one sub-mask per
  block, of that block's size, and the sub-masks concatenate to the mask.
\<close>

lemma slices_cumsum:
  "a + sum_list sizes \<le> length m \<Longrightarrow>
     map length (slices m (a # cumsum_from a sizes)) = sizes
     \<and> concat (slices m (a # cumsum_from a sizes)) = take (sum_list sizes) (drop a m)"
proof (induction sizes arbitrary: a)
  case Nil
  then show ?case by simp
next
  case (Cons x xs)
  have "a + x + sum_list xs \<le> length m" using Cons.prems by simp
  from Cons.IH [OF this] show ?case using Cons.prems
    by (simp add: take_add add.commute)
qed

lemma cumsum_from_last:
  "sizes \<noteq> [] \<Longrightarrow> butlast (cumsum_from a sizes) @ [a + sum_list sizes] = cumsum_from a sizes"
proof (induction sizes arbitrary: a)
  case Nil
  then show ?case by simp
next
  case step: (Cons x xs)
  show ?case
  proof (cases xs)
    case Nil
    then show ?thesis by simp
  next
    case (Cons y ys)
    then have "xs \<noteq> []" by simp
    from step.IH [OF this, of "a + x"] show ?thesis
      using Cons by (simp add: add.assoc)
  qed
qed

lemma np_split_block_masks:
  assumes "bs \<noteq> []" and "length m = total_size bs"
  shows "concat (np_split m (butlast (cumsum (block_sizes bs)))) = m
       \<and> map length (np_split m (butlast (cumsum (block_sizes bs)))) = block_sizes bs"
proof -
  have ne: "block_sizes bs \<noteq> []" using assms(1) by (simp add: block_sizes_def)
  have len: "length m = sum_list (block_sizes bs)" using assms(2) by (simp add: total_size_def)
  have "np_split m (butlast (cumsum (block_sizes bs)))
          = slices m (0 # cumsum_from 0 (block_sizes bs))"
    using cumsum_from_last [OF ne, of 0] by (simp add: np_split_def cumsum_def len)
  then show ?thesis using slices_cumsum [of 0 "block_sizes bs" m] len by simp
qed

subsection \<open>Reordering with the identity\<close>

text \<open>
  C5. \<^verbatim>\<open>reorder\<close> with the identity permutation should be a no-op for all three
  covariance classes. With a block-diagonal covariance the call does not complete: it
  raises \<^verbatim>\<open>NameError\<close> (the unbound name \<^verbatim>\<open>block\<close>) for an array of indices and
  \<^verbatim>\<open>AttributeError\<close> for a Python list. The exception comes before the covariance is
  assigned, so the data set itself is as before.
\<close>

theorem reorder_identity_block_raises:
  "reorder block_sacc (NdArray [0, 1, 2]) = (Some NameError, block_sacc)
   \<and> reorder block_sacc (PyList [0, 1, 2]) = (Some AttributeError, block_sacc)"
  by (simp add: example_defs reorder_def nd_getitem_def norm_index_def block_def)

subsection \<open>Selection by tag inequality\<close>

text \<open>
  C6. A record without the referenced tag should be a non-match of an inequality
  predicate. The third record of the example has no tag \<^verbatim>\<open>ell\<close>: the selections
  \<^verbatim>\<open>indices(ell__lt=50.0)\<close> and \<^verbatim>\<open>indices(ell__gt=50.0)\<close> compare \<^verbatim>\<open>None\<close> with a number
  and raise \<^verbatim>\<open>TypeError\<close> instead of returning the indices \<open>[0]\<close> and \<open>[1]\<close>.
\<close>

theorem indices_missing_tag_raises:
  "indices full_sacc None None [(''ell__lt'', PFloat 50)] = Inl TypeError
   \<and> indices full_sacc None None [(''ell__gt'', PFloat 50)] = Inl TypeError"
  by (simp add: example_defs indices_def endswith_def get_tag_def)

subsection \<open>The block of a single index\<close>

text \<open>
  C7. \<^verbatim>\<open>get_block([i])\<close> should be the 1-by-1 matrix of the variance at \<open>i\<close> for every
  class. For a diagonal covariance it raises \<^verbatim>\<open>ValueError\<close> (\<^verbatim>\<open>np.diagonal\<close> of a vector);
  for a block-diagonal covariance it raises \<^verbatim>\<open>TypeError\<close> on a Python list and
  \<^verbatim>\<open>NameError\<close> on an array of indices.
\<close>

theorem get_block_single_index_raises:
  "get_block (DiagonalCovariance [2, 3]) (PyList [1])
     = Inl (ValueError ''diagonal: array needs at least two dimensions'')
   \<and> get_block (BlockDiagonalCovariance [[[2]]]) (PyList [0]) = Inl TypeError
   \<and> get_block (BlockDiagonalCovariance [[[2]]]) (NdArray [0]) = Inl NameError"
  by (simp add: DiagonalCovariance_get_block_def BlockDiagonalCovariance_get_block_def
      nd_getitem_def norm_index_def np_diagonal_1d_def block_def)

subsection \<open>Serialisation\<close>

text \<open>
  C8. Deserialising the serialised form should give the covariance back. A block-diagonal
  covariance cannot be serialised: \<^verbatim>\<open>to_fits\<close> raises \<^verbatim>\<open>AttributeError\<close> at
  \<^verbatim>\<open>self.covmat\<close>. And the dispatcher \<^verbatim>\<open>BaseCovariance.from_fits\<close> raises \<^verbatim>\<open>NameError\<close>
  on the HDU that \<^verbatim>\<open>FullCovariance.to_fits\<close> wrote.
\<close>

theorem block_to_fits_raises:
  "BlockDiagonalCovariance_to_fits [[[1, 2], [3, 4]], [[5]]] = Inl AttributeError
   \<and> (case FullCovariance_to_fits example_cov of
        Inl e \<Rightarrow> Inl e
      | Inr h \<Rightarrow> BaseCovariance_from_fits h) = Inl NameError"
  by (simp add: BlockDiagonalCovariance_to_fits_def BlockDiagonalCovariance_covmat_def
      FullCovariance_to_fits_def BaseCovariance_from_fits_def)

subsection \<open>Rejected masks\<close>

text \<open>
  C9. \<^verbatim>\<open>cut\<close> raises the \<^verbatim>\<open>ValueError\<close> "Mask passed in is wrong size" (the spec's
  SizeMismatch) whenever a boolean mask's length differs from the number of data points,
  and the \<^verbatim>\<open>ValueError\<close> "Wrong mask type" (the spec's InvalidMaskType) whenever the
  mask's elements are neither booleans nor integers; in both cases the data set, records
  and covariance, is exactly as before the call.
\<close>

theorem cut_rejects_bad_mask:
  "(length m \<noteq> length (data s) \<longrightarrow>
      cut s (BoolMask m) = (Some (ValueError ''Mask passed in is wrong size''), s))
   \<and> cut s (FloatMask fs) = (Some (ValueError ''Wrong mask type''), s)
   \<and> cut s (StrMask ss) = (Some (ValueError ''Wrong mask type''), s)"
  by (simp add: cut_def)

theorem cut_rejects_bad_mask_witness:
  "length [True, False] \<noteq> length (data full_sacc)
   \<and> cut full_sacc (BoolMask [True, False])
       = (Some (ValueError ''Mask passed in is wrong size''), full_sacc)
   \<and> cut full_sacc (FloatMask [0, 1]) = (Some (ValueError ''Wrong mask type''), full_sacc)
   \<and> cut full_sacc (StrMask [''a'']) = (Some (ValueError ''Wrong mask type''), full_sacc)"
  using cut_rejects_bad_mask [of "[True, False]" full_sacc "[0, 1]" "[''a'']"]
  by (simp add: full_sacc_def sacc_with_def three_points_def)

subsection \<open>Tracers given as a list or as a tuple\<close>

lemma indices_from_tracers:
  "indices_from i ds None (Some t) []
     = Inr (map fst (filter (\<lambda>(k, d). tracers d = t) (enumerate i ds)))"
  by (induction ds arbitrary: i) auto

text \<open>
  C10. \<^verbatim>\<open>add_data_point\<close> does the same whether the tracers come as a list or as a tuple,
  and the data point it appends holds them as a tuple; \<^verbatim>\<open>indices\<close> returns the same
  whether its tracers filter is a list or a tuple; and a selection by tracers alone
  returns, in order, the positions of exactly the data points whose stored tracers are
  the tuple of the filter's names.
\<close>

theorem tracers_list_or_tuple:
  "add_data_point s dt (PyListS xs) v later tgs = add_data_point s dt (PyTuple xs) v later tgs
   \<and> (add_data_point s dt trs v later tgs = (None, s') \<longrightarrow>
        data s' = data s @ [DataPoint dt (PyTuple (items_of trs)) v tgs])
   \<and> indices s ty (Some (PyListS xs)) sel = indices s ty (Some (PyTuple xs)) sel
   \<and> indices s None (Some f) []
       = Inr (map fst (filter (\<lambda>(k, d). tracers d = PyTuple (items_of f))
                              (enumerate 0 (data s))))"
proof -
  have a: "add_data_point s dt (PyListS xs) v later tgs
             = add_data_point s dt (PyTuple xs) v later tgs"
    by (simp add: add_data_point_def tuple_def)
  have b: "add_data_point s dt trs v later tgs = (None, s') \<longrightarrow>
        data s' = data s @ [DataPoint dt (PyTuple (items_of trs)) v tgs]"
    by (auto simp: add_data_point_def tuple_def Let_def split: option.splits if_splits)
  have c: "indices s ty (Some (PyListS xs)) sel = indices s ty (Some (PyTuple xs)) sel"
    by (simp add: indices_def tuple_def)
  have d: "indices s None (Some f) []
       = Inr (map fst (filter (\<lambda>(k, d). tracers d = PyTuple (items_of f))
                              (enumerate 0 (data s))))"
    by (simp add: indices_def tuple_def indices_from_tracers)
  from a b c d show ?thesis by blast
qed

theorem tracers_list_or_tuple_witness:
  "add_data_point empty_sacc ''shear_ee'' (PyListS [''A'', ''B'']) 1 False []
     = (None, empty_sacc\<lparr>data := [DataPoint ''shear_ee'' (PyTuple [''A'', ''B'']) 1 []]\<rparr>)
   \<and> add_data_point empty_sacc ''shear_ee'' (PyTuple [''A'', ''B'']) 1 False []
     = (None, empty_sacc\<lparr>data := [DataPoint ''shear_ee'' (PyTuple [''A'', ''B'']) 1 []]\<rparr>)
   \<and> indices full_sacc None (Some (PyListS [''A'', ''B''])) [] = Inr [1]
   \<and> indices full_sacc None (Some (PyTuple [''A'', ''B''])) [] = Inr [1]"
proof -
  have run: "add_data_point empty_sacc ''shear_ee'' (PyListS [''A'', ''B'']) 1 False []
     = (None, empty_sacc\<lparr>data := [DataPoint ''shear_ee'' (PyTuple [''A'', ''B'']) 1 []]\<rparr>)"
    by (simp add: add_data_point_def empty_sacc_def tuple_def)
  have sel: "indices full_sacc None (Some (PyListS [''A'', ''B''])) [] = Inr [1]"
    by (simp add: indices_def tuple_def full_sacc_def sacc_with_def three_points_def
        DataPoint_def)
  note general = tracers_list_or_tuple [of empty_sacc "''shear_ee''" "[''A'', ''B'']" 1 False
      "[]" "PyListS [''A'', ''B'']"
      "empty_sacc\<lparr>data := [DataPoint ''shear_ee'' (PyTuple [''A'', ''B'']) 1 []]\<rparr>"
      None "[]" "PyListS [''A'', ''B'']"]
  note at_full = tracers_list_or_tuple [of full_sacc "''shear_ee''" "[''A'', ''B'']" 1 False
      "[]" "PyListS [''A'', ''B'']" full_sacc None "[]" "PyListS [''A'', ''B'']"]
  from general run
  have tup: "add_data_point empty_sacc ''shear_ee'' (PyTuple [''A'', ''B'']) 1 False []
     = (None, empty_sacc\<lparr>data := [DataPoint ''shear_ee'' (PyTuple [''A'', ''B'']) 1 []]\<rparr>)"
    by metis
  from at_full sel
  have sel': "indices full_sacc None (Some (PyTuple [''A'', ''B''])) [] = Inr [1]"
    by metis
  from run tup sel sel' show ?thesis by blast
qed

end
